theory Spec2Isabelle
  imports Complex_Main "HOL-Library.Sublist"
begin

section \<open>Data model\<close>

text \<open>
  The dashboard hub handles plain JavaScript objects. Each object shape is a record here;
  a property that may be \<^verbatim>\<open>null\<close> or absent is an \<open>option\<close> (\<open>None\<close> is the falsy
  value the source tests with \<^verbatim>\<open>x ? ... : ...\<close>). Field names follow the source; a prefix
  is added where two shapes share a property name or the name is reserved
  (\<^verbatim>\<open>title\<close>, \<^verbatim>\<open>time\<close>, \<^verbatim>\<open>done\<close>, \<^verbatim>\<open>text\<close>, \<^verbatim>\<open>id\<close>, \<^verbatim>\<open>type\<close>).
\<close>

record weather_reading =
  temp :: "int option"
  condition :: "string option"
  icon :: "string option"
  feelsLike :: "int option"
  description :: "string option"
  humidity :: "int option"
  windSpeed :: "int option"
  high :: "int option"
  low :: "int option"

record next_event =
  ev_title :: "string option"
  ev_time :: "string option"
  ev_minutesUntil :: "int option"
  ev_location :: "string option"
  ev_startTime :: "string option"

text \<open>A todo's \<^verbatim>\<open>dueDate\<close> is an ISO string or \<^verbatim>\<open>null\<close>; it is kept as the time value
  in milliseconds that the string denotes.\<close>

record todo_item =
  todo_text :: string
  urgent :: bool
  todo_done :: bool
  todo_id :: string
  dueDate :: "int option"
  priority :: int
  labels :: "string list"

record agenda_item =
  ag_time :: string
  ag_title :: string
  ag_done :: bool
  ag_location :: string
  isAllDay :: bool

record local_event =
  le_title :: string
  le_type :: string
  le_time :: string
  le_venue :: string

record llm_message =
  active :: bool
  message :: string
  urgency :: string

record quote =
  quote_text :: string
  author :: string

record briefing_summary =
  sum_weather :: "weather_reading option"
  sum_nextEvent :: "next_event option"
  todoCount :: nat
  urgentTodoCount :: nat
  agendaCount :: nat
  upcomingAgenda :: "agenda_item list"

text \<open>One record covers the full snapshot and every filtered shape: a filtered shape
  simply leaves the properties it does not carry absent.\<close>

record dashboard_data =
  mode :: "string option"
  weather :: "weather_reading option"
  nextEvent :: "next_event option"
  todos :: "todo_item list option"
  agenda :: "agenda_item list option"
  localEvents :: "local_event list option"
  llmMessage :: "llm_message option"
  guestQuote :: "quote option"
  summary :: "briefing_summary option"

section \<open>View filter (utils/modeManager.js)\<close>

definition GUEST_QUOTES :: "quote list" where
  "GUEST_QUOTES =
    [\<lparr>quote_text = ''The best time to plant a tree was 20 years ago. The second best time is now.'',
       author = ''Chinese Proverb''\<rparr>,
     \<lparr>quote_text = ''Creativity is intelligence having fun.'', author = ''Albert Einstein''\<rparr>,
     \<lparr>quote_text = ''The only way to do great work is to love what you do.'', author = ''Steve Jobs''\<rparr>,
     \<lparr>quote_text = ''Art is not what you see, but what you make others see.'', author = ''Edgar Degas''\<rparr>,
     \<lparr>quote_text = ''Every artist was first an amateur.'', author = ''Ralph Waldo Emerson''\<rparr>,
     \<lparr>quote_text = ''Simplicity is the ultimate sophistication.'', author = ''Leonardo da Vinci''\<rparr>,
     \<lparr>quote_text = ''Design is thinking made visual.'', author = ''Saul Bass''\<rparr>,
     \<lparr>quote_text = ''The purpose of art is washing the dust of daily life off our souls.'',
       author = ''Pablo Picasso''\<rparr>,
     \<lparr>quote_text = ''Color is my day-long obsession, joy and torment.'', author = ''Claude Monet''\<rparr>,
     \<lparr>quote_text = ''Art enables us to find ourselves and lose ourselves at the same time.'',
       author = ''Thomas Merton''\<rparr>,
     \<lparr>quote_text = ''To practice any art, no matter how well or badly, is a way to make your soul grow.'',
       author = ''Kurt Vonnegut''\<rparr>,
     \<lparr>quote_text = ''Everything you can imagine is real.'', author = ''Pablo Picasso''\<rparr>]"

text \<open>\<open>randomIndex\<close> is the value of \<^verbatim>\<open>Math.floor(Math.random() * GUEST_QUOTES.length)\<close>,
  supplied by the caller of the model. An index outside the array reads \<^verbatim>\<open>undefined\<close>.\<close>

definition getRandomQuote :: "nat \<Rightarrow> quote option" where
  "getRandomQuote randomIndex =
     (if randomIndex < length GUEST_QUOTES then Some (GUEST_QUOTES ! randomIndex) else None)"

definition createBriefingSummary :: "dashboard_data \<Rightarrow> briefing_summary" where
  "createBriefingSummary data =
     \<lparr>sum_weather =
        (case weather data of
           Some w \<Rightarrow> Some \<lparr>temp = temp w, condition = condition w, icon = None, feelsLike = None,
                            description = None, humidity = None, windSpeed = None,
                            high = None, low = None\<rparr>
         | None \<Rightarrow> None),
      sum_nextEvent =
        (case nextEvent data of
           Some e \<Rightarrow> Some \<lparr>ev_title = ev_title e, ev_time = ev_time e,
                            ev_minutesUntil = ev_minutesUntil e,
                            ev_location = None, ev_startTime = None\<rparr>
         | None \<Rightarrow> None),
      todoCount = (case todos data of Some ts \<Rightarrow> length ts | None \<Rightarrow> 0),
      urgentTodoCount = (case todos data of Some ts \<Rightarrow> length (filter urgent ts) | None \<Rightarrow> 0),
      agendaCount = (case agenda data of Some items \<Rightarrow> length items | None \<Rightarrow> 0),
      upcomingAgenda =
        (case agenda data of
           Some items \<Rightarrow> take 3 (filter (\<lambda>item. \<not> ag_done item) items)
         | None \<Rightarrow> [])\<rparr>"

definition unknown_mode_warning :: "string \<Rightarrow> string" where
  "unknown_mode_warning m =
     ''Unknown mode '' @ [CHR 0x27] @ m @ [CHR 0x27] @ '', defaulting to personal''"

definition no_data :: dashboard_data where
  "no_data = \<lparr>mode = None, weather = None, nextEvent = None, todos = None, agenda = None,
              localEvents = None, llmMessage = None, guestQuote = None, summary = None\<rparr>"

text \<open>\<open>filterByMode\<close> returns the filtered object together with the lines it writes with
  \<^verbatim>\<open>console.warn\<close> (kept without their leading emoji). The branches are tried in the
  order of the \<^verbatim>\<open>switch\<close>.\<close>

definition filterByMode :: "string \<Rightarrow> dashboard_data \<Rightarrow> nat \<Rightarrow> dashboard_data \<times> string list" where
  "filterByMode m data randomIndex =
     (if m = ''personal'' then (data, [])
      else if m = ''guest'' then
        (no_data\<lparr>mode := Some ''guest'', weather := weather data,
                 localEvents := localEvents data,
                 guestQuote := getRandomQuote randomIndex\<rparr>, [])
      else if m = ''briefing'' then
        (no_data\<lparr>mode := Some ''briefing'', weather := weather data,
                 summary := Some (createBriefingSummary data)\<rparr>, [])
      else if m = ''weather'' then
        (no_data\<lparr>mode := Some ''weather'', weather := weather data,
                 localEvents := localEvents data\<rparr>, [])
      else if m = ''art'' then
        (no_data\<lparr>mode := Some ''art'', weather := weather data,
                 localEvents :=
                   Some (case localEvents data of
                           Some es \<Rightarrow> filter (\<lambda>e. le_type e = ''art'' \<or> le_type e = ''music'') es
                         | None \<Rightarrow> []),
                 guestQuote := getRandomQuote randomIndex\<rparr>, [])
      else (data, [unknown_mode_warning m]))"

definition getAvailableModes :: "string list" where
  "getAvailableModes = [''personal'', ''guest'', ''briefing'', ''weather'', ''art'']"

definition isValidMode :: "string \<Rightarrow> bool" where
  "isValidMode m = (m \<in> set getAvailableModes)"

section \<open>Weather source cache (aggregators/weatherAggregator.js)\<close>

definition CACHE_DURATION :: int where
  "CACHE_DURATION = 10 * 60 * 1000"

text \<open>The two module variables \<^verbatim>\<open>cachedWeather\<close> and \<^verbatim>\<open>cacheTimestamp\<close>.\<close>

record weather_cache =
  cachedWeather :: "weather_reading option"
  cacheTimestamp :: "int option"

text \<open>The environment as \<open>getWeather\<close> reads it: the API key (absent or a string) and
  the two coordinates after \<^verbatim>\<open>parseFloat\<close> (\<open>None\<close> stands for \<^verbatim>\<open>NaN\<close>).\<close>

record weather_env =
  WEATHER_API_KEY :: "string option"
  WEATHER_LAT :: "real option"
  WEATHER_LON :: "real option"

definition truthy_string :: "string option \<Rightarrow> bool" where
  "truthy_string s = (case s of Some v \<Rightarrow> v \<noteq> [] | None \<Rightarrow> False)"

definition truthy_number :: "real option \<Rightarrow> bool" where
  "truthy_number x = (case x of Some v \<Rightarrow> v \<noteq> 0 | None \<Rightarrow> False)"

definition weather_configured :: "weather_env \<Rightarrow> bool" where
  "weather_configured env =
     (truthy_string (WEATHER_API_KEY env) \<and> truthy_number (WEATHER_LAT env)
      \<and> truthy_number (WEATHER_LON env))"

definition cache_valid :: "int \<Rightarrow> weather_cache \<Rightarrow> bool" where
  "cache_valid now c =
     (case cachedWeather c of
        None \<Rightarrow> False
      | Some w \<Rightarrow>
          (case cacheTimestamp c of
             None \<Rightarrow> False
           | Some ts \<Rightarrow> ts \<noteq> 0 \<and> now - ts < CACHE_DURATION))"

definition formatWeather :: "weather_reading \<Rightarrow> weather_reading" where
  "formatWeather parsedData =
     \<lparr>temp = temp parsedData, condition = condition parsedData, icon = icon parsedData,
      feelsLike = feelsLike parsedData, description = description parsedData,
      humidity = humidity parsedData, windSpeed = windSpeed parsedData,
      high = high parsedData, low = low parsedData\<rparr>"

text \<open>
  \<open>getWeather env now fetch stored c\<close>: \<open>now\<close> is \<^verbatim>\<open>Date.now()\<close> at the validity check,
  \<open>fetch\<close> the outcome of \<^verbatim>\<open>getCurrentWeather\<close> followed by \<^verbatim>\<open>parseWeatherResponse\<close>
  (\<open>Inl\<close> the message of the error thrown), \<open>stored\<close> is \<^verbatim>\<open>Date.now()\<close> when the cache is
  written. The result is the value returned, the cache afterwards, and whether a live
  fetch was issued.
\<close>

definition getWeather ::
  "weather_env \<Rightarrow> int \<Rightarrow> string + weather_reading \<Rightarrow> int \<Rightarrow> weather_cache
     \<Rightarrow> weather_reading option \<times> weather_cache \<times> bool" where
  "getWeather env now fetch stored c =
     (if cache_valid now c then (cachedWeather c, c, False)
      else if \<not> weather_configured env then (cachedWeather c, c, False)
      else
        (case fetch of
           Inr parsedData \<Rightarrow>
             (let weatherData = formatWeather parsedData
              in (Some weatherData,
                  \<lparr>cachedWeather = Some weatherData, cacheTimestamp = Some stored\<rparr>, True))
         | Inl err \<Rightarrow> (cachedWeather c, c, True)))"

section \<open>Todo source (aggregators/todoAggregator.js)\<close>

definition URGENT_THRESHOLD_HOURS :: real where
  "URGENT_THRESHOLD_HOURS = 2"

text \<open>A JavaScript \<^verbatim>\<open>Date\<close>: a time value in milliseconds, or an invalid date (whose
  \<^verbatim>\<open>getTime()\<close> is \<^verbatim>\<open>NaN\<close>).\<close>

datatype js_date = Date int | InvalidDate

text \<open>The \<^verbatim>\<open>due\<close> object of a parsed task. Its two strings are kept as the date that
  \<^verbatim>\<open>new Date(string)\<close> makes of them; \<open>None\<close> is an absent, null or empty string.\<close>

record todoist_due =
  due_datetime :: "js_date option"
  due_date :: "js_date option"

record parsed_task =
  task_id :: string
  content :: string
  task_priority :: int
  due :: "todoist_due option"
  task_labels :: "string list"
  isCompleted :: bool

definition parseDueDate :: "todoist_due option \<Rightarrow> js_date option" where
  "parseDueDate d =
     (case d of
        None \<Rightarrow> None
      | Some dd \<Rightarrow>
          (case due_datetime dd of
             Some t \<Rightarrow> Some t
           | None \<Rightarrow> (case due_date dd of Some t \<Rightarrow> Some t | None \<Rightarrow> None)))"

text \<open>\<open>dayStart t\<close> is the time value of local midnight of the day that holds \<open>t\<close>
  (\<^verbatim>\<open>new Date(d.getFullYear(), d.getMonth(), d.getDate())\<close>); it depends on the time zone
  of the process. A comparison with an invalid date is false.\<close>

definition isDueTodayOrOverdue :: "(int \<Rightarrow> int) \<Rightarrow> int \<Rightarrow> js_date option \<Rightarrow> bool" where
  "isDueTodayOrOverdue dayStart now dueD =
     (case dueD of
        None \<Rightarrow> False
      | Some InvalidDate \<Rightarrow> False
      | Some (Date t) \<Rightarrow> dayStart t \<le> dayStart now)"

text \<open>The quotient is a double in the source; on time values of the \<^verbatim>\<open>Date\<close> range the
  comparison of the rounded quotient with 2 agrees with the exact one used here.\<close>

definition isTaskUrgent :: "int \<Rightarrow> js_date option \<Rightarrow> bool" where
  "isTaskUrgent now dueD =
     (case dueD of
        None \<Rightarrow> False
      | Some InvalidDate \<Rightarrow> False
      | Some (Date t) \<Rightarrow>
          (let hoursUntilDue = real_of_int (t - now) / (1000 * 60 * 60)
           in hoursUntilDue \<le> URGENT_THRESHOLD_HOURS))"

definition getMockTodos :: "int \<Rightarrow> todo_item list" where
  "getMockTodos now =
     (let urgentT = now + 60 * 60 * 1000; later = now + 4 * 60 * 60 * 1000
      in [\<lparr>todo_text = ''Review PRs'', urgent = True, todo_done = False, todo_id = ''mock-1'',
           dueDate = Some urgentT, priority = 4, labels = [''work'']\<rparr>,
          \<lparr>todo_text = ''Update documentation'', urgent = False, todo_done = False,
           todo_id = ''mock-2'', dueDate = Some later, priority = 2, labels = [''work'']\<rparr>,
          \<lparr>todo_text = ''Team sync'', urgent = False, todo_done = False, todo_id = ''mock-3'',
           dueDate = Some later, priority = 3, labels = [''meeting'']\<rparr>])"

text \<open>The dashboard format of one relevant task, given its parsed due date. Only valid
  dates pass \<open>isDueTodayOrOverdue\<close>, so \<^verbatim>\<open>toISOString\<close> is never applied to an invalid one.\<close>

definition formatTodo :: "int \<Rightarrow> parsed_task \<times> js_date option \<Rightarrow> todo_item" where
  "formatTodo now td =
     (case td of (task, dueD) \<Rightarrow>
        \<lparr>todo_text = content task, urgent = isTaskUrgent now dueD, todo_done = False,
         todo_id = task_id task,
         dueDate = (case dueD of Some (Date t) \<Rightarrow> Some t | _ \<Rightarrow> None),
         priority = task_priority task, labels = task_labels task\<rparr>)"

definition todoCompare :: "todo_item \<Rightarrow> todo_item \<Rightarrow> int" where
  "todoCompare a b =
     (if dueDate a \<noteq> None \<and> dueDate b = None then - 1
      else if dueDate a = None \<and> dueDate b \<noteq> None then 1
      else
        (case (dueDate a, dueDate b) of
           (Some x, Some y) \<Rightarrow> (if x - y \<noteq> 0 then x - y else priority b - priority a)
         | _ \<Rightarrow> priority b - priority a))"

text \<open>\<^verbatim>\<open>Array.prototype.sort\<close> is stable; it is modelled as a stable insertion sort.\<close>

fun insertTodo :: "todo_item \<Rightarrow> todo_item list \<Rightarrow> todo_item list" where
  "insertTodo x [] = [x]"
| "insertTodo x (y # ys) = (if todoCompare x y \<le> 0 then x # y # ys else y # insertTodo x ys)"

fun sortTodos :: "todo_item list \<Rightarrow> todo_item list" where
  "sortTodos [] = []"
| "sortTodos (x # xs) = insertTodo x (sortTodos xs)"

text \<open>
  \<open>getTodos apiToken fetch dayStart now\<close>: \<open>apiToken\<close> is \<^verbatim>\<open>TODOIST_API_TOKEN\<close>, \<open>fetch\<close> the
  outcome of \<^verbatim>\<open>getTasks\<close> mapped through \<^verbatim>\<open>parseTodoistTask\<close> (\<open>Inl\<close> the message of the
  error thrown). All clock readings of one call are taken at the instant \<open>now\<close>.
\<close>

definition getTodos ::
  "string option \<Rightarrow> string + parsed_task list \<Rightarrow> (int \<Rightarrow> int) \<Rightarrow> int \<Rightarrow> todo_item list" where
  "getTodos apiToken fetch dayStart now =
     (if \<not> truthy_string apiToken then getMockTodos now
      else
        (case fetch of
           Inl err \<Rightarrow> getMockTodos now
         | Inr tasks \<Rightarrow>
             (if tasks = [] then []
              else
                (let relevantTasks =
                       filter (\<lambda>td. isDueTodayOrOverdue dayStart now (snd td))
                         (map (\<lambda>task. (task, parseDueDate (due task)))
                            (filter (\<lambda>task. \<not> isCompleted task) tasks))
                 in sortTodos (map (formatTodo now) relevantTasks)))))"

section \<open>Snapshot aggregator (aggregators/index.js)\<close>

definition fallbackWeather :: weather_reading where
  "fallbackWeather =
     \<lparr>temp = Some 72, condition = Some ''Partly Cloudy'', icon = Some ''02d'', feelsLike = None,
      description = None, humidity = Some 55, windSpeed = Some 8, high = Some 78, low = Some 65\<rparr>"

definition getWeatherData :: "weather_reading option \<Rightarrow> weather_reading" where
  "getWeatherData w = (case w of Some x \<Rightarrow> x | None \<Rightarrow> fallbackWeather)"

definition getLocalEvents :: "local_event list" where
  "getLocalEvents =
     [\<lparr>le_title = ''Jazz Night'', le_type = ''music'', le_time = ''7:00 PM'', le_venue = ''Blue Note''\<rparr>,
      \<lparr>le_title = ''Art Gallery Opening'', le_type = ''art'', le_time = ''6:00 PM'',
       le_venue = ''Modern Art Museum''\<rparr>]"

definition getLLMMessage :: llm_message where
  "getLLMMessage = \<lparr>active = False, message = [], urgency = ''none''\<rparr>"

text \<open>What the source getters returned in one aggregation: the result of \<open>getWeather\<close>,
  of the calendar's \<^verbatim>\<open>getNextEvent\<close> and \<^verbatim>\<open>getAgenda\<close>, and of \<open>getTodos\<close>.\<close>

record source_results =
  src_weather :: "weather_reading option"
  src_nextEvent :: "next_event option"
  src_todos :: "todo_item list"
  src_agenda :: "agenda_item list"

definition fullData :: "string \<Rightarrow> source_results \<Rightarrow> dashboard_data" where
  "fullData m r =
     \<lparr>mode = Some m, weather = Some (getWeatherData (src_weather r)),
      nextEvent = src_nextEvent r, todos = Some (src_todos r), agenda = Some (src_agenda r),
      localEvents = Some getLocalEvents, llmMessage = Some getLLMMessage,
      guestQuote = None, summary = None\<rparr>"

text \<open>\<open>getDashboardData m srcs randomIndex\<close>: \<open>srcs\<close> is \<open>Inl msg\<close> when a getter threw
  (the error is logged and thrown again), otherwise the results. The value is the
  filtered data with the warnings of the filter.\<close>

definition getDashboardData ::
  "string \<Rightarrow> string + source_results \<Rightarrow> nat \<Rightarrow> string + dashboard_data \<times> string list" where
  "getDashboardData m srcs randomIndex =
     (case srcs of
        Inl err \<Rightarrow> Inl err
      | Inr r \<Rightarrow> Inr (filterByMode m (fullData m r) randomIndex))"

section \<open>Connection manager (wsHandler.js)\<close>

text \<open>
  A socket object is identified by a handle; its mutable properties live in \<open>sockets\<close>.
  \<open>clients\<close> is the \<^verbatim>\<open>Set\<close> of live sockets in insertion order, \<open>wire\<close> records every
  \<^verbatim>\<open>send\<close> (socket and message), and \<open>broadcastLog\<close> the line that \<open>broadcast\<close> logs:
  the event and the number of sockets sent to. Message timestamps are left out.
\<close>

record socket =
  clientId :: string
  isAlive :: bool
  readyState :: nat

datatype payload =
    Welcome string string
  | DashboardUpdate dashboard_data
  | ErrorData string "string option"

record ws_message =
  event :: string
  msg_data :: payload

record ws_handler =
  clients :: "nat list"
  sockets :: "nat \<Rightarrow> socket"
  wire :: "(nat \<times> ws_message) list"
  broadcastLog :: "(string \<times> nat) list"

definition set_add :: "nat \<Rightarrow> nat list \<Rightarrow> nat list" where
  "set_add x xs = (if x \<in> set xs then xs else xs @ [x])"

definition set_delete :: "nat \<Rightarrow> nat list \<Rightarrow> nat list" where
  "set_delete x xs = removeAll x xs"

definition sendToSocket :: "nat \<Rightarrow> ws_message \<Rightarrow> ws_handler \<Rightarrow> ws_handler" where
  "sendToSocket sock msg h =
     (if readyState (sockets h sock) = 1 then h\<lparr>wire := wire h @ [(sock, msg)]\<rparr> else h)"

text \<open>The handler of the server's \<^verbatim>\<open>connection\<close> event for socket \<open>sock\<close>, with the
  identifier that \<^verbatim>\<open>generateClientId\<close> produced.\<close>

definition on_connection :: "nat \<Rightarrow> string \<Rightarrow> ws_handler \<Rightarrow> ws_handler" where
  "on_connection sock cid h =
     (let h1 = h\<lparr>sockets := (sockets h)(sock := (sockets h sock)\<lparr>clientId := cid, isAlive := True\<rparr>),
                 clients := set_add sock (clients h)\<rparr>
      in sendToSocket sock
           \<lparr>event = ''connection'', msg_data = Welcome ''Connected to Living Art BFF'' cid\<rparr> h1)"

definition on_close :: "nat \<Rightarrow> ws_handler \<Rightarrow> ws_handler" where
  "on_close sock h = h\<lparr>clients := set_delete sock (clients h)\<rparr>"

definition on_error :: "nat \<Rightarrow> ws_handler \<Rightarrow> ws_handler" where
  "on_error sock h = h\<lparr>clients := set_delete sock (clients h)\<rparr>"

text \<open>The \<^verbatim>\<open>forEach\<close> of \<open>broadcast\<close>: the sends so far and \<^verbatim>\<open>sentCount\<close> are carried along.\<close>

fun broadcast_loop ::
  "(nat \<Rightarrow> socket) \<Rightarrow> ws_message \<Rightarrow> nat list \<Rightarrow> (nat \<times> ws_message) list \<times> nat
     \<Rightarrow> (nat \<times> ws_message) list \<times> nat" where
  "broadcast_loop ss msg [] acc = acc"
| "broadcast_loop ss msg (client # rest) (sent, sentCount) =
     (if readyState (ss client) = 1
      then broadcast_loop ss msg rest (sent @ [(client, msg)], sentCount + 1)
      else broadcast_loop ss msg rest (sent, sentCount))"

definition broadcast :: "ws_message \<Rightarrow> ws_handler \<Rightarrow> ws_handler" where
  "broadcast msg h =
     (case broadcast_loop (sockets h) msg (clients h) (wire h, 0) of
        (sent, sentCount) \<Rightarrow>
          h\<lparr>wire := sent, broadcastLog := broadcastLog h @ [(event msg, sentCount)]\<rparr>)"

text \<open>The sockets of the live set that are open (\<^verbatim>\<open>readyState\<close> 1), in iteration order:
  the receivers of a broadcast.\<close>

definition open_clients :: "ws_handler \<Rightarrow> nat list" where
  "open_clients h = filter (\<lambda>client. readyState (sockets h client) = 1) (clients h)"

definition sendDashboardUpdate :: "dashboard_data \<Rightarrow> ws_handler \<Rightarrow> ws_handler" where
  "sendDashboardUpdate dashboardData h =
     broadcast
       \<lparr>event = ''dashboard:update'',
        msg_data = DashboardUpdate
          \<lparr>mode = mode dashboardData, weather = weather dashboardData,
           nextEvent = nextEvent dashboardData, todos = todos dashboardData,
           agenda = agenda dashboardData, localEvents = localEvents dashboardData,
           llmMessage = llmMessage dashboardData, guestQuote = None, summary = None\<rparr>\<rparr> h"

definition getActiveConnectionCount :: "ws_handler \<Rightarrow> nat" where
  "getActiveConnectionCount h = length (clients h)"

section \<open>Scheduler (scheduler.js)\<close>

text \<open>The process state: the scheduler's \<^verbatim>\<open>currentMode\<close>, the singleton connection
  manager, and the lines written with \<^verbatim>\<open>console.warn\<close> by the filter.\<close>

record app_state =
  currentMode :: string
  handler :: ws_handler
  warnings :: "string list"

definition refreshDashboardData :: "string + source_results \<Rightarrow> nat \<Rightarrow> app_state \<Rightarrow> app_state" where
  "refreshDashboardData srcs randomIndex s =
     (case getDashboardData (currentMode s) srcs randomIndex of
        Inr (dashboardData, ws) \<Rightarrow>
          s\<lparr>handler := sendDashboardUpdate dashboardData (handler s),
            warnings := warnings s @ ws\<rparr>
      | Inl err \<Rightarrow>
          s\<lparr>handler :=
              broadcast \<lparr>event = ''error'',
                         msg_data = ErrorData ''Failed to refresh dashboard data'' (Some err)\<rparr>
                (handler s)\<rparr>)"

text \<open>\<open>setMode\<close> assigns the mode without any check and starts a refresh; \<open>srcs\<close> and
  \<open>randomIndex\<close> are what that refresh reads.\<close>

definition setMode :: "string \<Rightarrow> string + source_results \<Rightarrow> nat \<Rightarrow> app_state \<Rightarrow> app_state" where
  "setMode m srcs randomIndex s = refreshDashboardData srcs randomIndex (s\<lparr>currentMode := m\<rparr>)"

definition getMode :: "app_state \<Rightarrow> string" where
  "getMode s = currentMode s"

definition triggerRefresh :: "string + source_results \<Rightarrow> nat \<Rightarrow> app_state \<Rightarrow> app_state" where
  "triggerRefresh srcs randomIndex s = refreshDashboardData srcs randomIndex s"

section \<open>Routes (server.js)\<close>

datatype http_response =
    Ok_data dashboard_data
  | Ok_mode string
  | Bad_request string string
  | Server_error string

definition missing_mode_message :: string where
  "missing_mode_message =
     ''Request body must include '' @ [CHR 0x22] @ ''mode'' @ [CHR 0x22] @ '' field''"

definition not_supported :: "string \<Rightarrow> string" where
  "not_supported m = ''Mode '' @ [CHR 0x27] @ m @ [CHR 0x27] @ '' is not supported''"

text \<open>\<^verbatim>\<open>GET /api/dashboard/data\<close>; \<open>queryMode\<close> is \<^verbatim>\<open>req.query.mode\<close>, absent or a string.\<close>

definition get_dashboard_data ::
  "string option \<Rightarrow> string + source_results \<Rightarrow> nat \<Rightarrow> app_state \<Rightarrow> http_response \<times> app_state" where
  "get_dashboard_data queryMode srcs randomIndex s =
     (let m = (case queryMode of Some q \<Rightarrow> (if q \<noteq> [] then q else ''personal'')
               | None \<Rightarrow> ''personal'')
      in if \<not> isValidMode m then (Bad_request ''Invalid mode'' (not_supported m), s)
         else
           (case getDashboardData m srcs randomIndex of
              Inl err \<Rightarrow> (Server_error err, s)
            | Inr (d, ws) \<Rightarrow> (Ok_data d, s\<lparr>warnings := warnings s @ ws\<rparr>)))"

text \<open>
  \<^verbatim>\<open>POST /api/dashboard/mode\<close>; \<open>bodyMode\<close> is \<^verbatim>\<open>req.body.mode\<close>, absent or a string.
  \<open>srcs1\<close>, \<open>r1\<close> feed the refresh that \<open>setMode\<close> starts, \<open>srcs2\<close>, \<open>r2\<close> the aggregation
  of the route itself. The refresh is not awaited by the route; the model runs it to its
  end first (the two broadcasts may arrive in either order, their number does not depend
  on it).
\<close>

definition post_dashboard_mode ::
  "string option \<Rightarrow> string + source_results \<Rightarrow> nat \<Rightarrow> string + source_results \<Rightarrow> nat
     \<Rightarrow> app_state \<Rightarrow> http_response \<times> app_state" where
  "post_dashboard_mode bodyMode srcs1 r1 srcs2 r2 s =
     (case (case bodyMode of Some b \<Rightarrow> (if b \<noteq> [] then Some b else None) | None \<Rightarrow> None) of
        None \<Rightarrow> (Bad_request ''Missing mode'' missing_mode_message, s)
      | Some m \<Rightarrow>
          (if \<not> isValidMode m then (Bad_request ''Invalid mode'' (not_supported m), s)
           else
             (let s1 = setMode m srcs1 r1 s
              in case getDashboardData m srcs2 r2 of
                   Inl err \<Rightarrow> (Server_error err, s1)
                 | Inr (d, ws) \<Rightarrow>
                     (Ok_mode m,
                      s1\<lparr>handler := sendDashboardUpdate d (handler s1),
                         warnings := warnings s1 @ ws\<rparr>))))"

text \<open>\<^verbatim>\<open>GET /api/dashboard/refresh\<close>: the scheduler's refresh broadcasts, the route only
  answers with its own aggregation.\<close>

definition get_dashboard_refresh ::
  "string option \<Rightarrow> string + source_results \<Rightarrow> nat \<Rightarrow> string + source_results \<Rightarrow> nat
     \<Rightarrow> app_state \<Rightarrow> http_response \<times> app_state" where
  "get_dashboard_refresh queryMode srcs1 r1 srcs2 r2 s =
     (let m = (case queryMode of Some q \<Rightarrow> (if q \<noteq> [] then q else getMode s)
               | None \<Rightarrow> getMode s);
          s1 = triggerRefresh srcs1 r1 s
      in case getDashboardData m srcs2 r2 of
           Inl err \<Rightarrow> (Server_error err, s1)
         | Inr (d, ws) \<Rightarrow> (Ok_data d, s1\<lparr>warnings := warnings s1 @ ws\<rparr>))"

section \<open>Sample inputs\<close>

text \<open>The state of a freshly loaded process: mode \<^verbatim>\<open>personal\<close>, no connection.\<close>

definition closed_socket :: socket where
  "closed_socket = \<lparr>clientId = [], isAlive = False, readyState = 3\<rparr>"

definition initial_handler :: ws_handler where
  "initial_handler = \<lparr>clients = [], sockets = (\<lambda>_. closed_socket), wire = [], broadcastLog = []\<rparr>"

definition initial_state :: app_state where
  "initial_state = \<lparr>currentMode = ''personal'', handler = initial_handler, warnings = []\<rparr>"

text \<open>One client connected and open (\<^verbatim>\<open>readyState\<close> 1) on socket 7.\<close>

definition one_client_state :: app_state where
  "one_client_state =
     initial_state\<lparr>handler :=
       on_connection 7 ''client_1''
         (initial_handler\<lparr>sockets := (\<lambda>_. closed_socket)(7 := closed_socket\<lparr>readyState := 1\<rparr>)\<rparr>)\<rparr>"

definition sample_agenda :: "agenda_item list" where
  "sample_agenda =
     [\<lparr>ag_time = ''9:00 AM'', ag_title = ''Standup'', ag_done = True, ag_location = [], isAllDay = False\<rparr>,
      \<lparr>ag_time = ''11:00 AM'', ag_title = ''Design review'', ag_done = False, ag_location = [],
       isAllDay = False\<rparr>,
      \<lparr>ag_time = ''1:00 PM'', ag_title = ''Lunch'', ag_done = False, ag_location = [], isAllDay = False\<rparr>,
      \<lparr>ag_time = ''3:00 PM'', ag_title = ''Planning'', ag_done = False, ag_location = [],
       isAllDay = False\<rparr>,
      \<lparr>ag_time = ''5:00 PM'', ag_title = ''Retro'', ag_done = False, ag_location = [], isAllDay = False\<rparr>]"

text \<open>An aggregation in which the weather source had nothing to return and the todo
  source returned its mock list for the instant 0.\<close>

definition sample_sources :: source_results where
  "sample_sources =
     \<lparr>src_weather = None, src_nextEvent = None, src_todos = getMockTodos 0,
      src_agenda = sample_agenda\<rparr>"

definition sample_events :: "local_event list" where
  "sample_events =
     [\<lparr>le_title = ''Farmers Market'', le_type = ''food'', le_time = ''9:00 AM'', le_venue = ''Plaza''\<rparr>,
      \<lparr>le_title = ''Jazz Night'', le_type = ''music'', le_time = ''7:00 PM'', le_venue = ''Blue Note''\<rparr>,
      \<lparr>le_title = ''Art Gallery Opening'', le_type = ''art'', le_time = ''6:00 PM'',
       le_venue = ''Modern Art Museum''\<rparr>]"

definition sample_env :: weather_env where
  "sample_env = \<lparr>WEATHER_API_KEY = Some ''key'', WEATHER_LAT = Some 41, WEATHER_LON = Some (- 87)\<rparr>"

definition empty_cache :: weather_cache where
  "empty_cache = \<lparr>cachedWeather = None, cacheTimestamp = None\<rparr>"

text \<open>Days in UTC, and seven parsed tasks read at the instant 90000000 (01:00 on the
  second day): one overdue, one due in an hour, one due later the same day, and four
  that the filters drop (completed, due another day, no due date, unreadable date).\<close>

definition sample_dayStart :: "int \<Rightarrow> int" where
  "sample_dayStart t = (t div 86400000) * 86400000"

definition sample_tasks :: "parsed_task list" where
  "sample_tasks =
     [\<lparr>task_id = ''1'', content = ''Write report'', task_priority = 1,
       due = Some \<lparr>due_datetime = Some (Date 100000000), due_date = Some (Date 86400000)\<rparr>,
       task_labels = [], isCompleted = False\<rparr>,
      \<lparr>task_id = ''2'', content = ''Pay rent'', task_priority = 4,
       due = Some \<lparr>due_datetime = None, due_date = Some (Date 0)\<rparr>,
       task_labels = [], isCompleted = False\<rparr>,
      \<lparr>task_id = ''3'', content = ''Archive mail'', task_priority = 1,
       due = Some \<lparr>due_datetime = None, due_date = Some (Date 0)\<rparr>,
       task_labels = [], isCompleted = True\<rparr>,
      \<lparr>task_id = ''4'', content = ''Call plumber'', task_priority = 2,
       due = Some \<lparr>due_datetime = Some (Date 93600000), due_date = Some (Date 86400000)\<rparr>,
       task_labels = [], isCompleted = False\<rparr>,
      \<lparr>task_id = ''5'', content = ''Book flights'', task_priority = 3,
       due = Some \<lparr>due_datetime = None, due_date = Some (Date 691200000)\<rparr>,
       task_labels = [], isCompleted = False\<rparr>,
      \<lparr>task_id = ''6'', content = ''Read novel'', task_priority = 1, due = None,
       task_labels = [], isCompleted = False\<rparr>,
      \<lparr>task_id = ''7'', content = ''Fix import'', task_priority = 1,
       due = Some \<lparr>due_datetime = Some InvalidDate, due_date = None\<rparr>,
       task_labels = [], isCompleted = False\<rparr>]"

section \<open>Properties of the view filter\<close>

lemma subseq_take_filter: "subseq (take n (filter P xs)) xs"
proof -
  have "subseq (take n (filter P xs)) (filter P xs)"
    by (metis append_take_drop_id subseq_rev_drop_many subseq_order.order_refl)
  moreover have "subseq (filter P xs) xs" by simp
  ultimately show ?thesis by (rule subseq_order.order_trans)
qed

lemma briefing_summary_eq:
  "summary (fst (filterByMode ''briefing'' data r)) = Some (createBriefingSummary data)"
  by (simp add: filterByMode_def no_data_def)

lemma upcomingAgenda_eq:
  "upcomingAgenda (createBriefingSummary data) =
     take 3 (filter (\<lambda>item. \<not> ag_done item) (case agenda data of Some items \<Rightarrow> items | None \<Rightarrow> []))"
  by (simp add: createBriefingSummary_def split: option.splits)

text \<open>
  C7. For every full snapshot, the summary of the briefing filter has
  \<open>urgentTodoCount \<le> todoCount\<close>, an \<open>upcomingAgenda\<close> of at most three items, every one of
  them with \<open>done = false\<close>, in the relative order they have in the agenda (they are the
  first three items of the agenda that are not done).
\<close>

theorem briefing_summary_bounds:
  "\<exists>sm. summary (fst (filterByMode ''briefing'' data r)) = Some sm
     \<and> urgentTodoCount sm \<le> todoCount sm
     \<and> length (upcomingAgenda sm) \<le> 3
     \<and> (\<forall>item \<in> set (upcomingAgenda sm). ag_done item = False)
     \<and> subseq (upcomingAgenda sm) (case agenda data of Some items \<Rightarrow> items | None \<Rightarrow> [])"
proof -
  let ?sm = "createBriefingSummary data"
  let ?ag = "case agenda data of Some items \<Rightarrow> items | None \<Rightarrow> []"
  have counts: "urgentTodoCount ?sm \<le> todoCount ?sm"
    by (simp add: createBriefingSummary_def split: option.splits)
  have len: "length (upcomingAgenda ?sm) \<le> 3"
    by (simp add: upcomingAgenda_eq)
  have nd: "\<forall>item \<in> set (upcomingAgenda ?sm). ag_done item = False"
  proof
    fix item assume "item \<in> set (upcomingAgenda ?sm)"
    then have "item \<in> set (filter (\<lambda>item. \<not> ag_done item) ?ag)"
      unfolding upcomingAgenda_eq by (rule in_set_takeD)
    then show "ag_done item = False" by simp
  qed
  have ord: "subseq (upcomingAgenda ?sm) ?ag"
    unfolding upcomingAgenda_eq by (rule subseq_take_filter)
  from counts len nd ord briefing_summary_eq show ?thesis by blast
qed

theorem briefing_summary_bounds_witness:
  "\<exists>sm. summary (fst (filterByMode ''briefing'' (fullData ''briefing'' sample_sources) 0)) = Some sm
     \<and> map ag_title (upcomingAgenda sm) = [''Design review'', ''Lunch'', ''Planning'']
     \<and> urgentTodoCount sm = 1 \<and> todoCount sm = 3
     \<and> map ag_done (upcomingAgenda sm) = [False, False, False]"
  using briefing_summary_bounds [of "fullData ''briefing'' sample_sources" 0]
  by (simp add: filterByMode_def no_data_def createBriefingSummary_def fullData_def
      sample_sources_def sample_agenda_def getMockTodos_def)

text \<open>
  C8. For every full snapshot, the local events of the art filter are exactly the
  input's local events of type \<^verbatim>\<open>art\<close> or \<^verbatim>\<open>music\<close>: every returned item has one of
  the two types and the relative order of the input is kept.
\<close>

theorem art_localEvents_filtered:
  "\<exists>es. localEvents (fst (filterByMode ''art'' data r)) = Some es
     \<and> (\<forall>e \<in> set es. le_type e = ''art'' \<or> le_type e = ''music'')
     \<and> subseq es (case localEvents data of Some xs \<Rightarrow> xs | None \<Rightarrow> [])
     \<and> es = filter (\<lambda>e. le_type e = ''art'' \<or> le_type e = ''music'')
              (case localEvents data of Some xs \<Rightarrow> xs | None \<Rightarrow> [])"
  by (simp add: filterByMode_def no_data_def split: option.splits)

theorem art_localEvents_filtered_witness:
  "\<exists>es. localEvents (fst (filterByMode ''art'' (no_data\<lparr>localEvents := Some sample_events\<rparr>) 0)) = Some es
     \<and> map le_title es = [''Jazz Night'', ''Art Gallery Opening'']
     \<and> map le_type es = [''music'', ''art'']"
  using art_localEvents_filtered [of "no_data\<lparr>localEvents := Some sample_events\<rparr>" 0]
  by (simp add: filterByMode_def no_data_def sample_events_def)

section \<open>Urgency of todos\<close>

lemma isTaskUrgent_Date:
  "isTaskUrgent now (Some (Date t)) = (t \<le> now + 2 * 60 * 60 * 1000)"
proof -
  have "(real_of_int (t - now) / (1000 * 60 * 60) \<le> 2) = (real_of_int (t - now) \<le> 7200000)"
    by (simp add: field_simps)
  also have "\<dots> = (t - now \<le> 7200000)"
    by linarith
  finally show ?thesis
    by (simp add: isTaskUrgent_def URGENT_THRESHOLD_HOURS_def algebra_simps)
qed

lemma isTaskUrgent_iff:
  "isTaskUrgent now dueD = (\<exists>t. dueD = Some (Date t) \<and> t \<le> now + 2 * 60 * 60 * 1000)"
proof (cases dueD)
  case None
  then show ?thesis by (simp add: isTaskUrgent_def)
next
  case (Some d)
  then show ?thesis
    by (cases d) (simp_all add: isTaskUrgent_Date, simp add: isTaskUrgent_def)
qed

lemma set_insertTodo: "set (insertTodo x ys) = insert x (set ys)"
  by (induction ys) auto

lemma set_sortTodos: "set (sortTodos xs) = set xs"
  by (induction xs) (simp_all add: set_insertTodo)

lemma mock_todos_urgent:
  "td \<in> set (getMockTodos now) \<Longrightarrow>
     urgent td = (\<exists>t. dueDate td = Some t \<and> t \<le> now + 2 * 60 * 60 * 1000)"
  by (auto simp: getMockTodos_def Let_def)

text \<open>Only a valid date passes the day filter of \<open>getTodos\<close>.\<close>

lemma relevant_due_valid:
  "isDueTodayOrOverdue dayStart now dueD \<Longrightarrow> \<exists>t. dueD = Some (Date t)"
  by (auto simp: isDueTodayOrOverdue_def split: option.splits js_date.splits)

lemma formatTodo_urgent:
  assumes "isDueTodayOrOverdue dayStart now dueD"
  shows "urgent (formatTodo now (task, dueD)) =
           (\<exists>t. dueDate (formatTodo now (task, dueD)) = Some t \<and> t \<le> now + 2 * 60 * 60 * 1000)"
proof -
  from assms obtain t where d: "dueD = Some (Date t)"
    by (auto dest: relevant_due_valid)
  show ?thesis
    by (simp add: formatTodo_def d isTaskUrgent_Date)
qed

lemma getTodos_urgent:
  assumes "td \<in> set (getTodos apiToken fetch dayStart now)"
  shows "urgent td = (\<exists>t. dueDate td = Some t \<and> t \<le> now + 2 * 60 * 60 * 1000)"
proof (cases "truthy_string apiToken")
  case False
  with assms show ?thesis by (simp add: getTodos_def mock_todos_urgent)
next
  case True
  show ?thesis
  proof (cases fetch)
    case (Inl err)
    with True assms show ?thesis by (simp add: getTodos_def mock_todos_urgent)
  next
    case (Inr tasks)
    with True assms obtain task dueD
      where "td = formatTodo now (task, dueD)" and "isDueTodayOrOverdue dayStart now dueD"
      by (auto simp: getTodos_def Let_def set_sortTodos split: if_splits)
    then show ?thesis by (simp add: formatTodo_urgent)
  qed
qed

text \<open>
  C10. A todo is flagged urgent exactly when it has a (valid) due date that lies at
  most two hours after the classification time \<open>now\<close>: \<open>isTaskUrgent\<close> decides just that,
  every overdue date is urgent, no due date is never urgent, and every item that
  \<open>getTodos\<close> returns (formatted tasks and mock items alike) carries the flag that its own
  due date gives.
\<close>

theorem urgent_iff_due_within_two_hours:
  "(isTaskUrgent now dueD \<longleftrightarrow> (\<exists>t. dueD = Some (Date t) \<and> t \<le> now + 2 * 60 * 60 * 1000))
   \<and> (\<forall>t. t < now \<longrightarrow> isTaskUrgent now (Some (Date t)))
   \<and> \<not> isTaskUrgent now None
   \<and> (\<forall>td \<in> set (getTodos apiToken fetch dayStart now).
         urgent td \<longleftrightarrow> (\<exists>t. dueDate td = Some t \<and> t \<le> now + 2 * 60 * 60 * 1000))"
proof (intro conjI allI impI ballI)
  show "isTaskUrgent now dueD \<longleftrightarrow> (\<exists>t. dueD = Some (Date t) \<and> t \<le> now + 2 * 60 * 60 * 1000)"
    by (rule isTaskUrgent_iff)
  show "isTaskUrgent now (Some (Date t))" if "t < now" for t
    using that by (simp add: isTaskUrgent_Date)
  show "\<not> isTaskUrgent now None"
    by (simp add: isTaskUrgent_def)
  show "urgent td \<longleftrightarrow> (\<exists>t. dueDate td = Some t \<and> t \<le> now + 2 * 60 * 60 * 1000)"
    if "td \<in> set (getTodos apiToken fetch dayStart now)" for td
    using that by (rule getTodos_urgent)
qed

theorem urgent_iff_due_within_two_hours_witness:
  "isTaskUrgent 1000 (Some (Date 7201000)) \<and> \<not> isTaskUrgent 1000 (Some (Date 7201001))
   \<and> (400 < (1000::int) \<and> isTaskUrgent 1000 (Some (Date 400)))
   \<and> \<not> isTaskUrgent 1000 None
   \<and> map (\<lambda>td. (todo_text td, urgent td, dueDate td))
         (getTodos (Some ''token'') (Inr sample_tasks) sample_dayStart 90000000)
       = [(''Pay rent'', True, Some 0), (''Call plumber'', True, Some 93600000),
          (''Write report'', False, Some 100000000)]"
proof -
  note inst = urgent_iff_due_within_two_hours
     [of 1000 "Some (Date 7201000)" "Some ''token''" "Inr sample_tasks" sample_dayStart]
     urgent_iff_due_within_two_hours
     [of 1000 "Some (Date 7201001)" "Some ''token''" "Inr sample_tasks" sample_dayStart]
     urgent_iff_due_within_two_hours
     [of 90000000 None "Some ''token''" "Inr sample_tasks" sample_dayStart]
  have run: "map (\<lambda>td. (todo_text td, urgent td, dueDate td))
         (getTodos (Some ''token'') (Inr sample_tasks) sample_dayStart 90000000)
       = [(''Pay rent'', True, Some 0), (''Call plumber'', True, Some 93600000),
          (''Write report'', False, Some 100000000)]"
    by (simp add: getTodos_def truthy_string_def sample_tasks_def sample_dayStart_def Let_def
        parseDueDate_def isDueTodayOrOverdue_def formatTodo_def isTaskUrgent_Date
        todoCompare_def)
  from inst run show ?thesis by simp
qed

section \<open>Connection count\<close>

lemma distinct_set_add: "distinct xs \<Longrightarrow> distinct (set_add x xs)"
  by (simp add: set_add_def)

lemma distinct_set_delete: "distinct xs \<Longrightarrow> distinct (set_delete x xs)"
  by (simp add: set_delete_def distinct_removeAll)

lemma clients_sendToSocket: "clients (sendToSocket sock msg h) = clients h"
  by (simp add: sendToSocket_def)

lemma clients_on_connection: "clients (on_connection sock cid h) = set_add sock (clients h)"
  by (simp add: on_connection_def Let_def clients_sendToSocket)

lemma clients_on_close: "clients (on_close sock h) = set_delete sock (clients h)"
  by (simp add: on_close_def)

text \<open>The live set never holds a socket twice: the empty set of a new handler does not,
  and the handlers keep it so.\<close>

lemma distinct_clients_invariant:
  "distinct (clients initial_handler)"
  "distinct (clients h) \<Longrightarrow> distinct (clients (on_connection sock cid h))"
  "distinct (clients h) \<Longrightarrow> distinct (clients (on_close sock h))"
  "distinct (clients h) \<Longrightarrow> distinct (clients (on_error sock h))"
  by (simp_all add: initial_handler_def clients_on_connection clients_on_close on_error_def
      distinct_set_add distinct_set_delete)

lemma length_set_delete:
  "distinct xs \<Longrightarrow> x \<in> set xs \<Longrightarrow> length (set_delete x xs) + 1 = length xs"
proof -
  assume d: "distinct xs" and m: "x \<in> set xs"
  have "length (remove1 x xs) = length xs - 1" using m by (simp add: length_remove1)
  moreover have "0 < length xs" using m by (cases xs) auto
  ultimately show ?thesis
    by (simp add: set_delete_def distinct_remove1_removeAll [OF d, symmetric])
qed

text \<open>
  C9. In a live set \<open>h\<close> (no socket twice): accepting a new socket raises the connection
  count by exactly one; closing a socket that is in the set lowers it by exactly one, so
  accept followed by close gives the count back; and closing a socket a second time
  changes nothing.
\<close>

theorem connection_count_accept_close:
  assumes "distinct (clients h)"
  shows "(sock \<notin> set (clients h) \<longrightarrow>
            getActiveConnectionCount (on_connection sock cid h) = getActiveConnectionCount h + 1
          \<and> getActiveConnectionCount (on_close sock (on_connection sock cid h))
              = getActiveConnectionCount h)
       \<and> (sock \<in> set (clients h) \<longrightarrow>
            getActiveConnectionCount (on_close sock h) + 1 = getActiveConnectionCount h)
       \<and> on_close sock (on_close sock h) = on_close sock h
       \<and> getActiveConnectionCount (on_close sock (on_close sock h))
           = getActiveConnectionCount (on_close sock h)"
proof -
  have idem: "on_close sock (on_close sock h) = on_close sock h"
    by (simp add: on_close_def set_delete_def)
  have closing: "getActiveConnectionCount (on_close sock h) + 1 = getActiveConnectionCount h"
    if "sock \<in> set (clients h)"
    using length_set_delete [OF assms that]
    by (simp add: getActiveConnectionCount_def clients_on_close)
  have acc: "getActiveConnectionCount (on_connection sock cid h) = getActiveConnectionCount h + 1"
    if "sock \<notin> set (clients h)"
    using that by (simp add: getActiveConnectionCount_def clients_on_connection set_add_def)
  have roundtrip: "getActiveConnectionCount (on_close sock (on_connection sock cid h))
                = getActiveConnectionCount h"
    if "sock \<notin> set (clients h)"
    using that
    by (simp add: getActiveConnectionCount_def clients_on_close clients_on_connection
        set_add_def set_delete_def)
  from idem closing acc roundtrip show ?thesis by simp
qed

theorem connection_count_accept_close_witness:
  "distinct (clients initial_handler) \<and> 7 \<notin> set (clients initial_handler)
   \<and> getActiveConnectionCount initial_handler = 0
   \<and> getActiveConnectionCount (on_connection 7 ''client_1'' initial_handler) = 1
   \<and> getActiveConnectionCount (on_close 7 (on_connection 7 ''client_1'' initial_handler)) = 0
   \<and> getActiveConnectionCount
       (on_close 7 (on_close 7 (on_connection 7 ''client_1'' initial_handler))) = 0
   \<and> 7 \<in> set (clients (on_connection 7 ''client_1'' initial_handler))"
  using connection_count_accept_close [of initial_handler 7 "''client_1''"]
    connection_count_accept_close [of "on_connection 7 ''client_1'' initial_handler" 7 "''client_1''"]
  by (simp add: initial_handler_def getActiveConnectionCount_def clients_on_connection
      clients_on_close set_add_def set_delete_def)

section \<open>Weather cache: freshness and fallback\<close>

lemma getWeather_cached:
  "cache_valid now c \<Longrightarrow> getWeather env now fetch stored c = (cachedWeather c, c, False)"
  by (simp add: getWeather_def)

lemma getWeather_fetch_ok:
  "\<not> cache_valid now c \<Longrightarrow> weather_configured env \<Longrightarrow>
     getWeather env now (Inr p) stored c =
       (Some (formatWeather p),
        \<lparr>cachedWeather = Some (formatWeather p), cacheTimestamp = Some stored\<rparr>, True)"
  by (simp add: getWeather_def Let_def)

lemma getWeather_fetch_failed:
  "\<not> cache_valid now c \<Longrightarrow> weather_configured env \<Longrightarrow>
     getWeather env now (Inl err) stored c = (cachedWeather c, c, True)"
  by (simp add: getWeather_def)

lemma cache_valid_after_store:
  "0 < stored \<Longrightarrow> t - stored < CACHE_DURATION \<Longrightarrow>
     cache_valid t \<lparr>cachedWeather = Some w, cacheTimestamp = Some stored\<rparr>"
  by (simp add: cache_valid_def)

lemma cache_expired:
  "cacheTimestamp c = Some ts \<Longrightarrow> CACHE_DURATION \<le> t - ts \<Longrightarrow> \<not> cache_valid t c"
  by (simp add: cache_valid_def split: option.splits)

text \<open>
  C5. With the weather source configured and a fetch that always succeeds:
  two calls at \<open>tA\<close> and \<open>tB\<close> less than one TTL (10 minutes) apart never both fetch, and
  when the first one fetched (and stored at \<open>storedA\<close>, a positive clock value not before
  \<open>tA\<close>) the second returns the same value from the cache, without a fetch and without
  touching the cache; a call inside the TTL window of the cached entry returns the
  cached value without a fetch; a call made when the TTL of the cached entry has
  expired fetches, returns the new value and stores it with the new time stamp.
\<close>

theorem weather_cache_ttl:
  assumes "weather_configured env"
  shows "(tA \<le> storedA \<and> 0 < storedA \<and> tB - tA < CACHE_DURATION \<longrightarrow>
           (case getWeather env tA (Inr pA) storedA c of
              (vA, cA, fetchedA) \<Rightarrow>
                (case getWeather env tB (Inr pB) storedB cA of
                   (vB, cB, fetchedB) \<Rightarrow>
                     \<not> (fetchedA \<and> fetchedB)
                     \<and> (fetchedA \<longrightarrow> vB = vA \<and> cB = cA \<and> \<not> fetchedB))))
       \<and> (cachedWeather c = Some w \<and> cacheTimestamp c = Some ts \<and> ts \<noteq> 0
            \<and> tB - ts < CACHE_DURATION \<longrightarrow>
           getWeather env tB (Inr pB) storedB c = (Some w, c, False))
       \<and> (cachedWeather c = Some w \<and> cacheTimestamp c = Some ts
            \<and> CACHE_DURATION \<le> tB - ts \<longrightarrow>
           getWeather env tB (Inr pB) storedB c =
             (Some (formatWeather pB),
              \<lparr>cachedWeather = Some (formatWeather pB), cacheTimestamp = Some storedB\<rparr>, True))"
proof (intro conjI impI)
  assume h: "tA \<le> storedA \<and> 0 < storedA \<and> tB - tA < CACHE_DURATION"
  show "case getWeather env tA (Inr pA) storedA c of
          (vA, cA, fetchedA) \<Rightarrow>
            (case getWeather env tB (Inr pB) storedB cA of
               (vB, cB, fetchedB) \<Rightarrow>
                 \<not> (fetchedA \<and> fetchedB)
                 \<and> (fetchedA \<longrightarrow> vB = vA \<and> cB = cA \<and> \<not> fetchedB))"
  proof (cases "cache_valid tA c")
    case True
    then show ?thesis by (simp add: getWeather_cached split: prod.splits)
  next
    case False
    let ?cA = "\<lparr>cachedWeather = Some (formatWeather pA), cacheTimestamp = Some storedA\<rparr>"
    from h have "0 < storedA" and "tB - storedA < CACHE_DURATION" by auto
    then have "cache_valid tB ?cA" by (rule cache_valid_after_store)
    then have "getWeather env tB (Inr pB) storedB ?cA = (Some (formatWeather pA), ?cA, False)"
      by (simp add: getWeather_cached)
    with False assms show ?thesis by (simp add: getWeather_fetch_ok)
  qed
next
  assume "cachedWeather c = Some w \<and> cacheTimestamp c = Some ts \<and> ts \<noteq> 0
            \<and> tB - ts < CACHE_DURATION"
  then have "cache_valid tB c" and "cachedWeather c = Some w" by (simp_all add: cache_valid_def)
  then show "getWeather env tB (Inr pB) storedB c = (Some w, c, False)"
    by (simp add: getWeather_cached)
next
  assume "cachedWeather c = Some w \<and> cacheTimestamp c = Some ts \<and> CACHE_DURATION \<le> tB - ts"
  then have "\<not> cache_valid tB c" by (simp add: cache_expired)
  with assms show "getWeather env tB (Inr pB) storedB c =
             (Some (formatWeather pB),
              \<lparr>cachedWeather = Some (formatWeather pB), cacheTimestamp = Some storedB\<rparr>, True)"
    by (simp add: getWeather_fetch_ok)
qed

theorem weather_cache_ttl_witness:
  "weather_configured sample_env
   \<and> (1000 \<le> (1200::int) \<and> 0 < (1200::int) \<and> 500000 - 1000 < CACHE_DURATION)
   \<and> getWeather sample_env 1000 (Inr fallbackWeather) 1200 empty_cache
       = (Some fallbackWeather, \<lparr>cachedWeather = Some fallbackWeather, cacheTimestamp = Some 1200\<rparr>, True)
   \<and> getWeather sample_env 500000 (Inr (fallbackWeather\<lparr>temp := Some 60\<rparr>)) 500300
       \<lparr>cachedWeather = Some fallbackWeather, cacheTimestamp = Some 1200\<rparr>
       = (Some fallbackWeather, \<lparr>cachedWeather = Some fallbackWeather, cacheTimestamp = Some 1200\<rparr>, False)
   \<and> ((1200::int) \<noteq> 0 \<and> 300000 - 1200 < CACHE_DURATION
       \<and> getWeather sample_env 300000 (Inr (fallbackWeather\<lparr>temp := Some 60\<rparr>)) 300100
           \<lparr>cachedWeather = Some fallbackWeather, cacheTimestamp = Some 1200\<rparr>
           = (Some fallbackWeather,
              \<lparr>cachedWeather = Some fallbackWeather, cacheTimestamp = Some 1200\<rparr>, False))
   \<and> (CACHE_DURATION \<le> 601200 - 1200
       \<and> getWeather sample_env 601200 (Inr (fallbackWeather\<lparr>temp := Some 60\<rparr>)) 601500
           \<lparr>cachedWeather = Some fallbackWeather, cacheTimestamp = Some 1200\<rparr>
           = (Some (fallbackWeather\<lparr>temp := Some 60\<rparr>),
              \<lparr>cachedWeather = Some (fallbackWeather\<lparr>temp := Some 60\<rparr>),
               cacheTimestamp = Some 601500\<rparr>, True))"
proof -
  have conf: "weather_configured sample_env"
    by (simp add: weather_configured_def sample_env_def truthy_string_def truthy_number_def)
  have fmt: "formatWeather fallbackWeather = fallbackWeather"
    "formatWeather (fallbackWeather\<lparr>temp := Some 60\<rparr>) = fallbackWeather\<lparr>temp := Some 60\<rparr>"
    by (simp_all add: formatWeather_def fallbackWeather_def)
  have first: "getWeather sample_env 1000 (Inr fallbackWeather) 1200 empty_cache
       = (Some fallbackWeather, \<lparr>cachedWeather = Some fallbackWeather, cacheTimestamp = Some 1200\<rparr>, True)"
    using conf by (simp add: getWeather_def cache_valid_def empty_cache_def fmt)
  note inst1 = weather_cache_ttl [OF conf, where tA = 1000 and storedA = 1200 and tB = 500000
      and pA = fallbackWeather and c = empty_cache
      and pB = "fallbackWeather\<lparr>temp := Some 60\<rparr>" and storedB = 500300
      and w = fallbackWeather and ts = 1200]
  note inst2 = weather_cache_ttl [OF conf, where tA = 1000 and storedA = 1200 and tB = 601200
      and pA = fallbackWeather
      and c = "\<lparr>cachedWeather = Some fallbackWeather, cacheTimestamp = Some 1200\<rparr>"
      and pB = "fallbackWeather\<lparr>temp := Some 60\<rparr>" and storedB = 601500
      and w = fallbackWeather and ts = 1200]
  note inst3 = weather_cache_ttl [OF conf, where tA = 1000 and storedA = 1200 and tB = 300000
      and pA = fallbackWeather
      and c = "\<lparr>cachedWeather = Some fallbackWeather, cacheTimestamp = Some 1200\<rparr>"
      and pB = "fallbackWeather\<lparr>temp := Some 60\<rparr>" and storedB = 300100
      and w = fallbackWeather and ts = 1200]
  from inst3 have inside:
    "getWeather sample_env 300000 (Inr (fallbackWeather\<lparr>temp := Some 60\<rparr>)) 300100
           \<lparr>cachedWeather = Some fallbackWeather, cacheTimestamp = Some 1200\<rparr>
           = (Some fallbackWeather,
              \<lparr>cachedWeather = Some fallbackWeather, cacheTimestamp = Some 1200\<rparr>, False)"
    by (simp add: CACHE_DURATION_def)
  from inst1 have second:
    "getWeather sample_env 500000 (Inr (fallbackWeather\<lparr>temp := Some 60\<rparr>)) 500300
       \<lparr>cachedWeather = Some fallbackWeather, cacheTimestamp = Some 1200\<rparr>
       = (Some fallbackWeather, \<lparr>cachedWeather = Some fallbackWeather, cacheTimestamp = Some 1200\<rparr>, False)"
    by (auto simp: first CACHE_DURATION_def split: prod.splits)
  from inst2 have third:
    "getWeather sample_env 601200 (Inr (fallbackWeather\<lparr>temp := Some 60\<rparr>)) 601500
           \<lparr>cachedWeather = Some fallbackWeather, cacheTimestamp = Some 1200\<rparr>
           = (Some (fallbackWeather\<lparr>temp := Some 60\<rparr>),
              \<lparr>cachedWeather = Some (fallbackWeather\<lparr>temp := Some 60\<rparr>),
               cacheTimestamp = Some 601500\<rparr>, True)"
    by (simp add: CACHE_DURATION_def fmt)
  from conf first second inside third show ?thesis by (simp add: CACHE_DURATION_def)
qed

text \<open>On a failed fetch the weather cache gives back what it holds, stale or not, and
  \<^verbatim>\<open>null\<close> when it holds nothing; the cache is left as it was.\<close>

lemma weather_fetch_failure_fallback:
  assumes "weather_configured env" and "\<not> cache_valid now c"
  shows "getWeather env now (Inl err) stored c = (cachedWeather c, c, True)"
  using assms by (simp add: getWeather_fetch_failed)

lemma todo_fetch_failure:
  "truthy_string apiToken \<Longrightarrow> getTodos apiToken (Inl err) dayStart now = getMockTodos now"
  by (simp add: getTodos_def)

text \<open>
  C4 at a failing fetch of the todo source: the token is configured, \<^verbatim>\<open>getTasks\<close> throws
  and nothing is cached (the source keeps no cache). \<open>getTodos\<close> returns its three mock
  todos, not an empty result.
\<close>

theorem todo_fetch_failure_returns_mock:
  "getTodos (Some ''token'') (Inl ''Todoist API timeout or network error'') sample_dayStart 90000000 \<noteq> []
   \<and> map todo_text
       (getTodos (Some ''token'') (Inl ''Todoist API timeout or network error'') sample_dayStart 90000000)
     = [''Review PRs'', ''Update documentation'', ''Team sync'']"
  by (simp add: getTodos_def truthy_string_def getMockTodos_def Let_def)

section \<open>Broadcasts\<close>

lemma broadcast_loop_eq:
  "broadcast_loop ss msg cs (sent, n) =
     (sent @ map (\<lambda>client. (client, msg)) (filter (\<lambda>client. readyState (ss client) = 1) cs),
      n + length (filter (\<lambda>client. readyState (ss client) = 1) cs))"
  by (induction cs arbitrary: sent n) simp_all

text \<open>One call of \<open>broadcast\<close> sends the message once to every open socket of the live
  set and writes one line to the log.\<close>

lemma broadcast_eq:
  "broadcast msg h =
     h\<lparr>wire := wire h @ map (\<lambda>client. (client, msg)) (open_clients h),
       broadcastLog := broadcastLog h @ [(event msg, length (open_clients h))]\<rparr>"
  by (simp add: broadcast_def broadcast_loop_eq open_clients_def)

lemma open_clients_broadcast: "open_clients (broadcast msg h) = open_clients h"
  by (simp add: broadcast_eq open_clients_def)

lemma broadcastLog_sendDashboardUpdate:
  "broadcastLog (sendDashboardUpdate d h) =
     broadcastLog h @ [(''dashboard:update'', length (open_clients h))]"
  by (simp add: sendDashboardUpdate_def broadcast_eq)

lemma open_clients_sendDashboardUpdate:
  "open_clients (sendDashboardUpdate d h) = open_clients h"
  by (simp add: sendDashboardUpdate_def open_clients_broadcast)

lemma refresh_ok:
  "\<exists>d ws. refreshDashboardData (Inr a) r s =
      s\<lparr>handler := sendDashboardUpdate d (handler s), warnings := warnings s @ ws\<rparr>"
  by (simp add: refreshDashboardData_def getDashboardData_def split: prod.splits) blast

lemma isValidMode_nonempty: "isValidMode m \<Longrightarrow> m \<noteq> []"
  by (auto simp: isValidMode_def getAvailableModes_def)

text \<open>A refresh of the scheduler (a timer tick, \<open>triggerRefresh\<close>) whose aggregation
  succeeds is one broadcast of a dashboard update.\<close>

lemma refresh_broadcasts_once:
  "broadcastLog (handler (refreshDashboardData (Inr a) r s)) =
     broadcastLog (handler s) @ [(''dashboard:update'', length (open_clients (handler s)))]"
proof -
  from refresh_ok obtain d ws where
    "refreshDashboardData (Inr a) r s =
       s\<lparr>handler := sendDashboardUpdate d (handler s), warnings := warnings s @ ws\<rparr>"
    by blast
  then show ?thesis by (simp add: broadcastLog_sendDashboardUpdate)
qed

text \<open>The refresh route leaves the broadcast to the scheduler: one broadcast.\<close>

lemma refresh_route_broadcasts_once:
  "broadcastLog (handler (snd (get_dashboard_refresh q (Inr a) r1 (Inr b) r2 s))) =
     broadcastLog (handler s) @ [(''dashboard:update'', length (open_clients (handler s)))]"
  by (simp add: get_dashboard_refresh_def triggerRefresh_def getDashboardData_def Let_def
      refresh_broadcasts_once split: prod.splits)

text \<open>The mode route broadcasts twice on every successful call: once in the refresh that
  \<open>setMode\<close> starts and once itself, each time to all open connections.\<close>

lemma post_mode_broadcasts_twice:
  assumes "isValidMode m"
  shows "fst (post_dashboard_mode (Some m) (Inr a) r1 (Inr b) r2 s) = Ok_mode m
       \<and> currentMode (snd (post_dashboard_mode (Some m) (Inr a) r1 (Inr b) r2 s)) = m
       \<and> broadcastLog (handler (snd (post_dashboard_mode (Some m) (Inr a) r1 (Inr b) r2 s))) =
           broadcastLog (handler s)
             @ [(''dashboard:update'', length (open_clients (handler s))),
                (''dashboard:update'', length (open_clients (handler s)))]"
proof -
  let ?s0 = "s\<lparr>currentMode := m\<rparr>"
  from refresh_ok [of a r1 ?s0] obtain d ws where
    r: "refreshDashboardData (Inr a) r1 ?s0 =
          ?s0\<lparr>handler := sendDashboardUpdate d (handler ?s0), warnings := warnings ?s0 @ ws\<rparr>"
    by blast
  from assms have ne: "m \<noteq> []" by (rule isValidMode_nonempty)
  show ?thesis
    using assms ne
    by (simp add: post_dashboard_mode_def setMode_def r getDashboardData_def Let_def
        broadcastLog_sendDashboardUpdate open_clients_sendDashboardUpdate split: prod.splits)
qed

text \<open>
  C3 at a concrete call: one client is connected and open, the mode is set to
  \<^verbatim>\<open>guest\<close> and both aggregations succeed. The call answers with success and the client
  is sent two dashboard updates (after the welcome of its connection); the log shows two
  broadcasts to one client each.
\<close>

theorem post_mode_guest_two_broadcasts:
  "fst (post_dashboard_mode (Some ''guest'') (Inr sample_sources) 0 (Inr sample_sources) 1
          one_client_state) = Ok_mode ''guest''
   \<and> broadcastLog (handler (snd (post_dashboard_mode (Some ''guest'') (Inr sample_sources) 0
          (Inr sample_sources) 1 one_client_state)))
       = [(''dashboard:update'', 1), (''dashboard:update'', 1)]
   \<and> map (\<lambda>sent. (fst sent, event (snd sent)))
       (wire (handler (snd (post_dashboard_mode (Some ''guest'') (Inr sample_sources) 0
          (Inr sample_sources) 1 one_client_state))))
       = [(7, ''connection''), (7, ''dashboard:update''), (7, ''dashboard:update'')]"
  by (simp add: post_dashboard_mode_def isValidMode_def getAvailableModes_def setMode_def
      refreshDashboardData_def getDashboardData_def filterByMode_def Let_def
      sendDashboardUpdate_def broadcast_eq open_clients_def one_client_state_def
      initial_state_def initial_handler_def on_connection_def sendToSocket_def set_add_def
      closed_socket_def)

section \<open>Unknown view identifiers\<close>

lemma unknown_mode_cases:
  "m \<notin> set getAvailableModes \<Longrightarrow>
     m \<noteq> ''personal'' \<and> m \<noteq> ''guest'' \<and> m \<noteq> ''briefing'' \<and> m \<noteq> ''weather'' \<and> m \<noteq> ''art''"
  by (auto simp: getAvailableModes_def)

lemma filterByMode_unknown:
  "m \<notin> set getAvailableModes \<Longrightarrow> filterByMode m data r = (data, [unknown_mode_warning m])"
  by (drule unknown_mode_cases) (simp add: filterByMode_def)

text \<open>\<open>setMode\<close> itself accepts any string; the check of the identifier is made by the
  route before it calls \<open>setMode\<close>.\<close>

lemma setMode_unchecked: "currentMode (setMode m srcs r s) = m"
  by (simp add: setMode_def refreshDashboardData_def split: sum.splits prod.splits)

text \<open>
  C1. For every view identifier that is not one of the five modes, the mode route
  answers with an explicit 400 error (\<^verbatim>\<open>Invalid mode\<close>; for the empty identifier the
  guard before it answers \<^verbatim>\<open>Missing mode\<close>) and leaves the whole state as it was: the
  scheduler's current mode is unchanged, nothing is sent and no broadcast is logged, so
  no refresh cycle ran.
\<close>

theorem set_default_view_rejects_unknown:
  assumes "m \<notin> set getAvailableModes"
  shows "fst (post_dashboard_mode (Some m) srcs1 r1 srcs2 r2 s) =
           (if m = [] then Bad_request ''Missing mode'' missing_mode_message
            else Bad_request ''Invalid mode'' (not_supported m))
       \<and> snd (post_dashboard_mode (Some m) srcs1 r1 srcs2 r2 s) = s
       \<and> currentMode (snd (post_dashboard_mode (Some m) srcs1 r1 srcs2 r2 s)) = currentMode s
       \<and> wire (handler (snd (post_dashboard_mode (Some m) srcs1 r1 srcs2 r2 s))) = wire (handler s)
       \<and> broadcastLog (handler (snd (post_dashboard_mode (Some m) srcs1 r1 srcs2 r2 s)))
           = broadcastLog (handler s)"
  using assms by (simp add: post_dashboard_mode_def isValidMode_def)

theorem set_default_view_rejects_unknown_witness:
  "''bogus'' \<notin> set getAvailableModes \<and> [] \<notin> set getAvailableModes
   \<and> post_dashboard_mode (Some ''bogus'') (Inr sample_sources) 0 (Inr sample_sources) 1
         one_client_state
       = (Bad_request ''Invalid mode'' (not_supported ''bogus''), one_client_state)
   \<and> post_dashboard_mode (Some []) (Inr sample_sources) 0 (Inr sample_sources) 1
         one_client_state
       = (Bad_request ''Missing mode'' missing_mode_message, one_client_state)
   \<and> currentMode one_client_state = ''personal''"
proof -
  have nv: "''bogus'' \<notin> set getAvailableModes" and ne: "[] \<notin> set getAvailableModes"
    by (simp_all add: getAvailableModes_def)
  from set_default_view_rejects_unknown [OF nv, of "Inr sample_sources" 0 "Inr sample_sources" 1
      one_client_state]
  have a: "post_dashboard_mode (Some ''bogus'') (Inr sample_sources) 0 (Inr sample_sources) 1
         one_client_state
       = (Bad_request ''Invalid mode'' (not_supported ''bogus''), one_client_state)"
    by (simp add: prod_eq_iff)
  from set_default_view_rejects_unknown [OF ne, of "Inr sample_sources" 0 "Inr sample_sources" 1
      one_client_state]
  have b: "post_dashboard_mode (Some []) (Inr sample_sources) 0 (Inr sample_sources) 1
         one_client_state
       = (Bad_request ''Missing mode'' missing_mode_message, one_client_state)"
    by (simp add: prod_eq_iff)
  from nv ne a b show ?thesis by (simp add: one_client_state_def initial_state_def)
qed

text \<open>
  C2, as stated, fails on the read route: \<^verbatim>\<open>GET /api/dashboard/data?mode=bogus\<close> is
  answered with the 400 error \<^verbatim>\<open>Invalid mode\<close>, not with a snapshot.
\<close>

theorem get_snapshot_bogus_rejected:
  "fst (get_dashboard_data (Some ''bogus'') (Inr sample_sources) 0 initial_state)
     = Bad_request ''Invalid mode'' (not_supported ''bogus'')"
  by (simp add: get_dashboard_data_def isValidMode_def getAvailableModes_def)

text \<open>
  C2, amended. For every view identifier that is not one of the five modes, the view
  filter does not fail: it returns the snapshot unchanged (the personal shape) and
  writes one warning, and so does the aggregator \<open>getDashboardData\<close> that calls it. The
  read route, however, checks the identifier first: a non-empty unknown identifier is
  answered with the 400 error \<^verbatim>\<open>Invalid mode\<close> and the state is untouched; the empty
  identifier is read as \<^verbatim>\<open>personal\<close> and answered with the full snapshot.
\<close>

theorem unknown_view_read_paths:
  assumes "m \<notin> set getAvailableModes"
  shows "filterByMode m data r = (data, [unknown_mode_warning m])
       \<and> getDashboardData m (Inr src) r = Inr (fullData m src, [unknown_mode_warning m])
       \<and> (m \<noteq> [] \<longrightarrow>
            get_dashboard_data (Some m) srcs r s = (Bad_request ''Invalid mode'' (not_supported m), s))
       \<and> (m = [] \<longrightarrow>
            get_dashboard_data (Some m) (Inr src) r s = (Ok_data (fullData ''personal'' src), s))"
proof (intro conjI impI)
  show "filterByMode m data r = (data, [unknown_mode_warning m])"
    using assms by (rule filterByMode_unknown)
  show "getDashboardData m (Inr src) r = Inr (fullData m src, [unknown_mode_warning m])"
    using assms by (simp add: getDashboardData_def filterByMode_unknown)
  show "get_dashboard_data (Some m) srcs r s = (Bad_request ''Invalid mode'' (not_supported m), s)"
    if "m \<noteq> []"
    using assms that by (simp add: get_dashboard_data_def isValidMode_def)
  show "get_dashboard_data (Some m) (Inr src) r s = (Ok_data (fullData ''personal'' src), s)"
    if "m = []"
    using that
    by (simp add: get_dashboard_data_def isValidMode_def getAvailableModes_def
        getDashboardData_def filterByMode_def)
qed

theorem unknown_view_read_paths_witness:
  "''bogus'' \<notin> set getAvailableModes \<and> [] \<notin> set getAvailableModes \<and> ''bogus'' \<noteq> []
   \<and> filterByMode ''bogus'' (fullData ''bogus'' sample_sources) 0
       = (fullData ''bogus'' sample_sources, [unknown_mode_warning ''bogus''])
   \<and> get_dashboard_data (Some ''bogus'') (Inr sample_sources) 0 initial_state
       = (Bad_request ''Invalid mode'' (not_supported ''bogus''), initial_state)
   \<and> get_dashboard_data (Some []) (Inr sample_sources) 0 initial_state
       = (Ok_data (fullData ''personal'' sample_sources), initial_state)"
proof -
  have nv: "''bogus'' \<notin> set getAvailableModes" and ne: "[] \<notin> set getAvailableModes"
    by (simp_all add: getAvailableModes_def)
  from unknown_view_read_paths [OF nv, where data = "fullData ''bogus'' sample_sources" and r = 0
        and src = sample_sources and srcs = "Inr sample_sources" and s = initial_state]
       unknown_view_read_paths [OF ne, where data = "fullData ''bogus'' sample_sources" and r = 0
        and src = sample_sources and srcs = "Inr sample_sources" and s = initial_state]
       nv ne
  show ?thesis by simp
qed

text \<open>The refresh route does not check the identifier it is given: an unknown one reaches
  the filter and is answered with the full snapshot.\<close>

lemma refresh_route_unknown_mode:
  assumes "m \<notin> set getAvailableModes" and "m \<noteq> []"
  shows "fst (get_dashboard_refresh (Some m) srcs1 r1 (Inr src) r2 s) = Ok_data (fullData m src)"
  using assms
  by (simp add: get_dashboard_refresh_def getDashboardData_def filterByMode_unknown Let_def)

section \<open>Weather in the briefing view\<close>

lemma briefing_weather_unchanged:
  "weather (fst (filterByMode ''briefing'' data r)) = weather data"
  by (simp add: filterByMode_def no_data_def)

text \<open>Inside the summary the weather is cut down to temperature and condition.\<close>

lemma briefing_summary_weather_reduced:
  "sum_weather (createBriefingSummary data) =
     map_option (\<lambda>w. \<lparr>temp = temp w, condition = condition w, icon = None, feelsLike = None,
                      description = None, humidity = None, windSpeed = None,
                      high = None, low = None\<rparr>) (weather data)"
  by (simp add: createBriefingSummary_def split: option.splits)

text \<open>
  C6 at a concrete snapshot: the aggregation of \<open>sample_sources\<close> for the briefing view
  (its weather is the static fallback reading). The \<^verbatim>\<open>weather\<close> property of the briefing
  output is the full reading, with icon, humidity, high, low and wind speed; only the
  copy inside \<^verbatim>\<open>summary\<close> is reduced.
\<close>

theorem briefing_output_keeps_full_weather:
  "weather (fst (filterByMode ''briefing'' (fullData ''briefing'' sample_sources) 0))
     = Some fallbackWeather
   \<and> icon fallbackWeather = Some ''02d'' \<and> humidity fallbackWeather = Some 55
   \<and> high fallbackWeather = Some 78 \<and> low fallbackWeather = Some 65
   \<and> windSpeed fallbackWeather = Some 8
   \<and> map_option sum_weather
       (summary (fst (filterByMode ''briefing'' (fullData ''briefing'' sample_sources) 0)))
     = Some (Some \<lparr>temp = Some 72, condition = Some ''Partly Cloudy'', icon = None,
                    feelsLike = None, description = None, humidity = None, windSpeed = None,
                    high = None, low = None\<rparr>)"
  by (simp add: briefing_weather_unchanged briefing_summary_eq briefing_summary_weather_reduced
      fullData_def sample_sources_def getWeatherData_def fallbackWeather_def)

end
